theory Spec2Isabelle
  imports Main "HOL-Library.Sublist"
begin

section \<open>JavaScript values that may be absent\<close>

text \<open>
  A prop declared \<open>value?: State\<close> holds \<open>undefined\<close> when it is not passed; a
  \<open>State\<close> type that admits \<open>null\<close> lets it hold \<open>null\<close> as well. The two are kept
  apart from every other value, since \<open>??\<close> looks at exactly this distinction.
\<close>

datatype 'v js_value = Undefined | Null | Defined 'v

text \<open>The operator \<open>l ?? r\<close>: the right operand when the left one is \<open>null\<close> or
  \<open>undefined\<close>, the left operand otherwise.\<close>

definition nullish_coalesce :: "'v js_value \<Rightarrow> 'v js_value \<Rightarrow> 'v js_value" where
  "nullish_coalesce l r = (case l of Undefined \<Rightarrow> r | Null \<Rightarrow> r | Defined v \<Rightarrow> Defined v)"

section \<open>The error of a missing provider\<close>

record Error =
  message :: string

text \<open>A substitution \<open>${displayName}\<close> of a template literal converts its operand to a
  string; \<open>undefined\<close> becomes the text \<open>undefined\<close>.\<close>

definition template_substitution :: "string option \<Rightarrow> string" where
  "template_substitution displayName =
     (case displayName of None \<Rightarrow> ''undefined'' | Some name \<Rightarrow> name)"

text \<open>The template literal of the constructor, line by line. Each line of the source
  ends in a line feed and the continuation lines are indented by six blanks, the closing
  back quote by four.\<close>

definition message_head :: string where
  "message_head = CHR 0x0A # ''      Attempt to read value from state context '' @ [CHR 0x27]"

definition message_instruction :: string where
  "message_instruction =
     ''make sure that the context provider is being used and is mounted''
     @ CHR 0x0A # ''      in the component tree.''"

definition message_tail :: string where
  "message_tail = CHR 0x0A # ''    ''"

definition MissingStateContextError :: "string option \<Rightarrow> Error" where
  "MissingStateContextError displayName =
     \<lparr>message =
        message_head @ template_substitution displayName
        @ (CHR 0x27 # '','' @ CHR 0x0A # ''      '') @ message_instruction @ message_tail\<rparr>"

section \<open>Primitives of the host framework\<close>

text \<open>
  Modelled from the spec: the reducer hook of the host framework, which is no part of
  the sources. The pairing (current state value, dispatch function) is created when a
  provider mounts and is mutated by dispatched actions, processed through the reducer
  handed to the hook. The memory of one hook holds the state (none before the first
  render), the actions dispatched since the last render, and the dispatch function
  bound to it, which stays the same for the life of the hook.
\<close>

record ('st, 'a, 'd) ReducerHook =
  memoizedState :: "'st option"
  pending :: "'a list"
  bound_dispatch :: 'd

text \<open>
  Modelled from the spec: \<open>useReducer(reducer, initialArg)\<close> of the host framework.
  The first render takes \<open>initialArg\<close> as the state; a later render ignores it and
  passes the pending actions, in the order of their dispatch, through \<open>reducer\<close>.
\<close>

definition useReducer ::
  "('st \<Rightarrow> 'a \<Rightarrow> 'st) \<Rightarrow> 'st \<Rightarrow> ('st, 'a, 'd) ReducerHook
     \<Rightarrow> ('st \<times> 'd) \<times> ('st, 'a, 'd) ReducerHook" where
  "useReducer reducer initialArg hook =
     (let state = (case memoizedState hook of
                     None \<Rightarrow> initialArg
                   | Some previous \<Rightarrow> foldl reducer previous (pending hook))
      in ((state, bound_dispatch hook), hook\<lparr>memoizedState := Some state, pending := []\<rparr>))"

text \<open>Modelled from the spec: calling the dispatch function of a hook with an action
  hands the action to that hook, to be processed by the next render.\<close>

definition dispatchAction ::
  "'a \<Rightarrow> ('st, 'a, 'd) ReducerHook \<Rightarrow> ('st, 'a, 'd) ReducerHook" where
  "dispatchAction action hook = hook\<lparr>pending := pending hook @ [action]\<rparr>"

text \<open>Modelled from the spec: \<open>useCallback\<close> and \<open>useMemo\<close> of the host framework
  cache a function, or the result of one, for as long as the dependencies stay the same.
  The cached value is the one a fresh evaluation gives.\<close>

definition useCallback :: "'f \<Rightarrow> 'deps \<Rightarrow> 'f" where
  "useCallback callback deps = callback"

definition useMemo :: "(unit \<Rightarrow> 'r) \<Rightarrow> 'deps \<Rightarrow> 'r" where
  "useMemo factory deps = factory ()"

section \<open>The hooked context\<close>

text \<open>
  Modelled from the spec: the object made by \<open>createHookedContext\<close>, whose module is
  no part of the sources. It keeps the hook it was created with and a display name.
\<close>

record ('p, 'h, 'v) HookedContext =
  useHook :: "'p \<Rightarrow> 'h \<Rightarrow> 'v \<times> 'h"
  displayName :: "string option"

definition createHookedContext :: "('p \<Rightarrow> 'h \<Rightarrow> 'v \<times> 'h) \<Rightarrow> ('p, 'h, 'v) HookedContext" where
  "createHookedContext hook = \<lparr>useHook = hook, displayName = None\<rparr>"

text \<open>
  Modelled from the spec: a mounted provider of a hooked context. It owns the memory of
  its hook and the context slot, which holds the value the hook returned in the last
  render. The slot of a provider that has not rendered holds nothing.
\<close>

record ('h, 'v) ProviderInstance =
  hooks :: 'h
  slot :: "'v option"

text \<open>Modelled from the spec: rendering the provider of a hooked context runs the hook
  on the props and puts its result into the context slot.\<close>

definition hc_Provider ::
  "('p, 'h, 'v) HookedContext \<Rightarrow> 'p \<Rightarrow> ('h, 'v) ProviderInstance \<Rightarrow> ('h, 'v) ProviderInstance" where
  "hc_Provider context props inst =
     (let (result, memory) = useHook context props (hooks inst)
      in \<lparr>hooks = memory, slot = Some result\<rparr>)"

text \<open>Modelled from the spec: the reading hooks of a hooked context. A consumer reads
  the context slot of the provider above it: the whole value, or what a selector derives
  from it. With no provider mounted there is no slot to read, and the hook throws the
  error of a missing provider, named after the context.\<close>

definition hc_useValue :: "('p, 'h, 'v) HookedContext \<Rightarrow> 'v option \<Rightarrow> Error + 'v" where
  "hc_useValue context held =
     (case held of
        None \<Rightarrow> Inl (MissingStateContextError (displayName context))
      | Some v \<Rightarrow> Inr v)"

definition hc_useSelectedValue ::
  "('p, 'h, 'v) HookedContext \<Rightarrow> ('v \<Rightarrow> 'r) \<Rightarrow> 'v option \<Rightarrow> Error + 'r" where
  "hc_useSelectedValue context selector held =
     (case held of
        None \<Rightarrow> Inl (MissingStateContextError (displayName context))
      | Some v \<Rightarrow> Inr (selector v))"

definition hc_useSelectedValues ::
  "('p, 'h, 'v) HookedContext \<Rightarrow> ('v \<Rightarrow> 'r) \<Rightarrow> 'v option \<Rightarrow> Error + 'r" where
  "hc_useSelectedValues context selector held =
     (case held of
        None \<Rightarrow> Inl (MissingStateContextError (displayName context))
      | Some v \<Rightarrow> Inr (selector v))"

section \<open>The reducer context\<close>

record ('st, 'c) ReducerContextProviderProps =
  value_prop :: "'st js_value"
  children :: 'c

type_synonym ('st, 'd) ContextValue = "'st \<times> 'd"

text \<open>The object returned by \<open>createReducerContext\<close>. Its functions close over one
  \<open>InternalContext\<close>; here they take the object as their first argument.\<close>

record ('p, 'h, 'v) ReducerContextInterface =
  InternalContext :: "('p, 'h, 'v) HookedContext"

definition createReducerContext ::
  "('st js_value \<Rightarrow> 'a \<Rightarrow> 'st js_value) \<Rightarrow> 'st js_value
     \<Rightarrow> (('st, 'c) ReducerContextProviderProps, ('st js_value, 'a, 'd) ReducerHook,
         ('st js_value, 'd) ContextValue) ReducerContextInterface" where
  "createReducerContext reducer defaultValue =
     \<lparr>InternalContext =
        createHookedContext
          (\<lambda>props. useReducer reducer (nullish_coalesce (value_prop props) defaultValue))\<rparr>"

definition useState ::
  "('p, 'h, ('st, 'd) ContextValue) ReducerContextInterface
     \<Rightarrow> ('st, 'd) ContextValue option \<Rightarrow> Error + ('st, 'd) ContextValue" where
  "useState rc held = hc_useValue (InternalContext rc) held"

definition useValue ::
  "('p, 'h, ('st, 'd) ContextValue) ReducerContextInterface
     \<Rightarrow> ('st, 'd) ContextValue option \<Rightarrow> Error + 'st" where
  "useValue rc held =
     (let internalSelector = useCallback (\<lambda>(next, _). next) ()
      in hc_useSelectedValue (InternalContext rc) internalSelector held)"

definition useDispatch ::
  "('p, 'h, ('st, 'd) ContextValue) ReducerContextInterface
     \<Rightarrow> ('st, 'd) ContextValue option \<Rightarrow> Error + 'd" where
  "useDispatch rc held =
     (let internalSelector = useCallback (\<lambda>(_, dispatch). dispatch) ()
      in hc_useSelectedValue (InternalContext rc) internalSelector held)"

definition useSelectedState ::
  "('p, 'h, ('st, 'd) ContextValue) ReducerContextInterface \<Rightarrow> ('st \<Rightarrow> 'r)
     \<Rightarrow> ('st, 'd) ContextValue option \<Rightarrow> Error + ('r, 'd) ContextValue" where
  "useSelectedState rc selector held =
     (let internalSelector = useCallback (\<lambda>(next, dispatch). (selector next, dispatch)) selector
      in hc_useSelectedValues (InternalContext rc) internalSelector held)"

definition useSelectedValue ::
  "('p, 'h, ('st, 'd) ContextValue) ReducerContextInterface \<Rightarrow> ('st \<Rightarrow> 'r)
     \<Rightarrow> ('st, 'd) ContextValue option \<Rightarrow> Error + 'r" where
  "useSelectedValue rc selector held =
     (let internalSelector = useCallback (\<lambda>(next, _). selector next) selector
      in hc_useSelectedValue (InternalContext rc) internalSelector held)"

text \<open>
  In \<open>useSelectedStates\<close> the parameters of the internal selector carry no type, so the
  dispatch function and the selected elements share one array of \<open>any\<close>: one type \<open>'x\<close>
  here. Taking an array apart with \<open>[dispatch, ...states]\<close> gives \<open>undefined\<close> for
  \<open>dispatch\<close> when the array is empty: \<open>None\<close> here.
\<close>

definition useSelectedStates ::
  "('p, 'h, ('st, 'x) ContextValue) ReducerContextInterface \<Rightarrow> ('st \<Rightarrow> 'x list)
     \<Rightarrow> ('st, 'x) ContextValue option \<Rightarrow> Error + ('x list \<times> 'x option)" where
  "useSelectedStates rc selector held =
     (let internalSelector = useCallback (\<lambda>(next, dispatch). dispatch # selector next) selector
      in case hc_useSelectedValues (InternalContext rc) internalSelector held of
           Inl thrown \<Rightarrow> Inl thrown
         | Inr values \<Rightarrow>
             Inr (useMemo
                    (\<lambda>_. case values of
                            [] \<Rightarrow> ([], None)
                          | dispatch # states \<Rightarrow> (states, Some dispatch))
                    values))"

definition useSelectedValues ::
  "('p, 'h, ('st, 'd) ContextValue) ReducerContextInterface \<Rightarrow> ('st \<Rightarrow> 'r)
     \<Rightarrow> ('st, 'd) ContextValue option \<Rightarrow> Error + 'r" where
  "useSelectedValues rc selector held =
     (let internalSelector = useCallback (\<lambda>(next, _). selector next) selector
      in hc_useSelectedValues (InternalContext rc) internalSelector held)"

text \<open>\<open>Provider\<close> returns the element of the internal provider, given its own
  \<open>value\<close> and \<open>children\<close>: the props that element is rendered with.\<close>

definition Provider ::
  "('st, 'c) ReducerContextProviderProps \<Rightarrow> ('st, 'c) ReducerContextProviderProps" where
  "Provider props = \<lparr>value_prop = value_prop props, children = children props\<rparr>"

definition Consumer ::
  "('p, 'h, ('st, 'd) ContextValue) ReducerContextInterface \<Rightarrow> ('st \<Rightarrow> 'd \<Rightarrow> 'e)
     \<Rightarrow> ('st, 'd) ContextValue option \<Rightarrow> Error + 'e" where
  "Consumer rc render held =
     (case useState rc held of
        Inl thrown \<Rightarrow> Inl thrown
      | Inr (state, setState) \<Rightarrow> Inr (render state setState))"

definition Selector ::
  "('p, 'h, ('st, 'd) ContextValue) ReducerContextInterface \<Rightarrow> ('st \<Rightarrow> 'r) \<Rightarrow> ('r \<Rightarrow> 'd \<Rightarrow> 'e)
     \<Rightarrow> ('st, 'd) ContextValue option \<Rightarrow> Error + 'e" where
  "Selector rc selector render held =
     (case useSelectedState rc selector held of
        Inl thrown \<Rightarrow> Inl thrown
      | Inr (state, setState) \<Rightarrow> Inr (render state setState))"

definition Selectors ::
  "('p, 'h, ('st, 'x) ContextValue) ReducerContextInterface \<Rightarrow> ('st \<Rightarrow> 'x list)
     \<Rightarrow> ('x list \<Rightarrow> 'x option \<Rightarrow> 'e) \<Rightarrow> ('st, 'x) ContextValue option \<Rightarrow> Error + 'e" where
  "Selectors rc selector render held =
     (case useSelectedStates rc selector held of
        Inl thrown \<Rightarrow> Inl thrown
      | Inr (state, setState) \<Rightarrow> Inr (render state setState))"

text \<open>The accessor pair \<open>displayName\<close> of the returned object.\<close>

definition set_displayName ::
  "string option \<Rightarrow> ('p, 'h, 'v) ReducerContextInterface \<Rightarrow> ('p, 'h, 'v) ReducerContextInterface" where
  "set_displayName v rc = rc\<lparr>InternalContext := (InternalContext rc)\<lparr>displayName := v\<rparr>\<rparr>"

definition get_displayName :: "('p, 'h, 'v) ReducerContextInterface \<Rightarrow> string option" where
  "get_displayName rc = displayName (InternalContext rc)"

section \<open>A provider of a reducer context, from mount to dispatch\<close>

text \<open>A provider before its first render: the host has bound the dispatch function
  \<open>d\<close> to the hook, the hook has no state yet, and the slot is empty.\<close>

definition fresh_instance :: "'d \<Rightarrow> (('st, 'a, 'd) ReducerHook, 'v) ProviderInstance" where
  "fresh_instance d =
     \<lparr>hooks = \<lparr>memoizedState = None, pending = [], bound_dispatch = d\<rparr>, slot = None\<rparr>"

text \<open>Rendering \<open>Provider\<close> renders the element it returns.\<close>

definition render_Provider ::
  "(('st, 'c) ReducerContextProviderProps, 'h, 'v) ReducerContextInterface
     \<Rightarrow> ('st, 'c) ReducerContextProviderProps \<Rightarrow> ('h, 'v) ProviderInstance
     \<Rightarrow> ('h, 'v) ProviderInstance" where
  "render_Provider rc props inst = hc_Provider (InternalContext rc) (Provider props) inst"

definition mount_Provider ::
  "(('st, 'c) ReducerContextProviderProps, ('s, 'a, 'd) ReducerHook, 'v) ReducerContextInterface
     \<Rightarrow> 'd \<Rightarrow> ('st, 'c) ReducerContextProviderProps
     \<Rightarrow> (('s, 'a, 'd) ReducerHook, 'v) ProviderInstance" where
  "mount_Provider rc d props = render_Provider rc props (fresh_instance d)"

text \<open>Dispatching an action to a mounted provider: the action reaches the hook, and the
  provider renders again with the props it has.\<close>

definition dispatch_Provider ::
  "(('st, 'c) ReducerContextProviderProps, ('s, 'a, 'd) ReducerHook, 'v) ReducerContextInterface
     \<Rightarrow> ('st, 'c) ReducerContextProviderProps \<Rightarrow> 'a
     \<Rightarrow> (('s, 'a, 'd) ReducerHook, 'v) ProviderInstance
     \<Rightarrow> (('s, 'a, 'd) ReducerHook, 'v) ProviderInstance" where
  "dispatch_Provider rc props action inst =
     render_Provider rc props (inst\<lparr>hooks := dispatchAction action (hooks inst)\<rparr>)"

text \<open>
  A provider at rest stores the pair \<open>(s, d)\<close>: its slot holds the pair, the hook
  remembers \<open>s\<close> as its state and \<open>d\<close> as its dispatch function, and no action
  waits to be processed.
\<close>

definition stores ::
  "(('st, 'a, 'd) ReducerHook, ('st, 'd) ContextValue) ProviderInstance \<Rightarrow> 'st \<Rightarrow> 'd \<Rightarrow> bool" where
  "stores inst s d \<longleftrightarrow>
     slot inst = Some (s, d) \<and> memoizedState (hooks inst) = Some s
     \<and> pending (hooks inst) = [] \<and> bound_dispatch (hooks inst) = d"

section \<open>A sample reducer\<close>

text \<open>A reducer to run the definitions on: a counter whose actions are amounts to
  add. From a state that is \<open>null\<close> or \<open>undefined\<close> it starts at the amount.\<close>

definition counter :: "nat js_value \<Rightarrow> nat \<Rightarrow> nat js_value" where
  "counter state amount =
     (case state of Defined n \<Rightarrow> Defined (n + amount) | Null \<Rightarrow> Defined amount
      | Undefined \<Rightarrow> Defined amount)"

section \<open>The message of the error\<close>

lemma sublist_between: "ys = ps @ xs @ ss \<Longrightarrow> sublist xs ys"
  by (auto simp: sublist_def)

lemma message_parts:
  "message (MissingStateContextError d) =
     message_head @ template_substitution d
     @ (CHR 0x27 # '','' @ CHR 0x0A # ''      '') @ message_instruction @ message_tail"
  by (simp add: MissingStateContextError_def)

text \<open>
  Claim C10. For every optional display name, the message of
  \<open>MissingStateContextError\<close> contains the name as the template literal writes it (the
  name itself when one is given), says that the value of a state context was read, and
  gives the instruction to make sure that the context provider is being used and is
  mounted in the component tree.
\<close>

theorem MissingStateContextError_message:
  "sublist (template_substitution d) (message (MissingStateContextError d))
   \<and> sublist name (message (MissingStateContextError (Some name)))
   \<and> sublist ''Attempt to read value from state context''
       (message (MissingStateContextError d))
   \<and> sublist ''make sure that the context provider is being used and is mounted''
       (message (MissingStateContextError d))
   \<and> sublist ''in the component tree.'' (message (MissingStateContextError d))"
proof (intro conjI)
  show "sublist (template_substitution d) (message (MissingStateContextError d))"
    unfolding message_parts by (rule sublist_appendI)
  have "sublist (template_substitution (Some name))
          (message (MissingStateContextError (Some name)))"
    unfolding message_parts by (rule sublist_appendI)
  then show "sublist name (message (MissingStateContextError (Some name)))"
    by (simp add: template_substitution_def)
  show "sublist ''Attempt to read value from state context''
          (message (MissingStateContextError d))"
    by (rule sublist_between
          [where ps = "CHR 0x0A # ''      ''"
             and ss = "'' '' @ CHR 0x27 # template_substitution d
                       @ (CHR 0x27 # '','' @ CHR 0x0A # ''      '')
                       @ message_instruction @ message_tail"])
       (simp add: message_parts message_head_def)
  show "sublist ''make sure that the context provider is being used and is mounted''
          (message (MissingStateContextError d))"
    by (rule sublist_between
          [where ps = "message_head @ template_substitution d
                       @ (CHR 0x27 # '','' @ CHR 0x0A # ''      '')"
             and ss = "CHR 0x0A # ''      in the component tree.'' @ message_tail"])
       (simp add: message_parts message_instruction_def)
  show "sublist ''in the component tree.'' (message (MissingStateContextError d))"
    by (rule sublist_between
          [where ps = "message_head @ template_substitution d
                       @ (CHR 0x27 # '','' @ CHR 0x0A # ''      '')
                       @ ''make sure that the context provider is being used and is mounted''
                       @ CHR 0x0A # ''      ''"
             and ss = message_tail])
       (simp add: message_parts message_instruction_def)
qed

section \<open>Reading the stored pair\<close>

text \<open>
  Claim C2. For every pair \<open>(s, d)\<close> of state and dispatch function held in the
  internal hooked context, \<open>useState\<close> returns the pair, \<open>useValue\<close> its first
  component and \<open>useDispatch\<close> its second.
\<close>

theorem hooks_read_stored_pair:
  "useState rc (Some (s, d)) = Inr (s, d)
   \<and> useValue rc (Some (s, d)) = Inr s
   \<and> useDispatch rc (Some (s, d)) = Inr d"
  by (simp add: useState_def useValue_def useDispatch_def hc_useValue_def
      hc_useSelectedValue_def useCallback_def)

text \<open>
  Claim C3. For every selector \<open>f\<close> and stored state \<open>s\<close>, \<open>useSelectedValue f\<close>
  returns \<open>f s\<close>; whatever the context holds, it returns \<open>f\<close> applied to what
  \<open>useValue\<close> returns (and fails when \<open>useValue\<close> fails); with the identity as
  selector it returns the whole state.
\<close>

theorem useSelectedValue_selects:
  "useSelectedValue rc f (Some (s, d)) = Inr (f s)
   \<and> useSelectedValue rc f held = map_sum id f (useValue rc held)
   \<and> useSelectedValue rc id (Some (s, d)) = Inr s
   \<and> useSelectedValue rc id held = useValue rc held"
  by (cases held)
     (auto simp add: useSelectedValue_def useValue_def hc_useSelectedValue_def useCallback_def)

text \<open>
  Claim C4. For every selector \<open>f\<close> that returns an array and every stored pair
  \<open>(s, d)\<close>, \<open>useSelectedStates f\<close> returns the array \<open>f s\<close>, every element in its
  place, together with the dispatch function \<open>d\<close>: putting \<open>d\<close> in front of the
  selected array and taking the combined array apart again loses nothing.
\<close>

theorem useSelectedStates_round_trip:
  "useSelectedStates rc f (Some (s, d)) = Inr (f s, Some d)"
  by (simp add: useSelectedStates_def hc_useSelectedValues_def useCallback_def useMemo_def)

section \<open>The components that read\<close>

text \<open>
  Claim C6. For every stored pair \<open>(s, d)\<close>, rendering \<open>Consumer\<close> with the render
  function \<open>c\<close> as its children gives \<open>c s d\<close>: the whole state and the dispatch
  function reach the children as they are stored.
\<close>

theorem Consumer_passes_pair:
  "Consumer rc c (Some (s, d)) = Inr (c s d)"
  by (simp add: Consumer_def useState_def hc_useValue_def)

text \<open>
  Claim C7. For every selector \<open>f\<close>, render function \<open>c\<close> and stored pair
  \<open>(s, d)\<close>, rendering \<open>Selector\<close> with the props \<open>selector = f\<close> and
  \<open>children = c\<close> gives \<open>c (f s) d\<close>, and \<open>useSelectedState f\<close> returns the pair
  \<open>(f s, d)\<close>.
\<close>

theorem Selector_passes_selected:
  "Selector rc f c (Some (s, d)) = Inr (c (f s) d)
   \<and> useSelectedState rc f (Some (s, d)) = Inr (f s, d)"
  by (simp add: Selector_def useSelectedState_def hc_useSelectedValues_def useCallback_def)

section \<open>The display name\<close>

text \<open>
  Claim C8. Reading \<open>displayName\<close> after assigning \<open>v\<close> to it returns \<open>v\<close>, for
  every string \<open>v\<close> (and for \<open>undefined\<close>), in particular on the object returned by
  \<open>createReducerContext\<close>.
\<close>

theorem displayName_set_get:
  "get_displayName (set_displayName v rc) = v
   \<and> get_displayName (set_displayName (Some name) (createReducerContext reducer defaultValue))
       = Some name"
  by (simp add: get_displayName_def set_displayName_def)

section \<open>Mounting a provider\<close>

lemma useHook_createReducerContext:
  "useHook (InternalContext (createReducerContext reducer defaultValue)) props hook =
     useReducer reducer (nullish_coalesce (value_prop props) defaultValue) hook"
  by (simp add: createReducerContext_def createHookedContext_def)

lemma mount_Provider_stores:
  "stores (mount_Provider (createReducerContext reducer defaultValue) d props)
     (nullish_coalesce (value_prop props) defaultValue) d"
  by (simp add: stores_def mount_Provider_def render_Provider_def hc_Provider_def
      useHook_createReducerContext useReducer_def Let_def fresh_instance_def Provider_def)

text \<open>
  Claim C5 as it is written fails: a provider mounted with the value prop \<open>null\<close>, on
  a context whose default value is the number 0, starts with the state 0 and not with
  \<open>null\<close>, the value that was supplied.
\<close>

theorem mount_supplied_null_counterexample:
  "slot (mount_Provider (createReducerContext counter (Defined 0)) (7::nat)
           \<lparr>value_prop = Null, children = ()\<rparr>) = Some (Defined 0, 7)
   \<and> slot (mount_Provider (createReducerContext counter (Defined 0)) (7::nat)
           \<lparr>value_prop = Null, children = ()\<rparr>) \<noteq> Some (Null, 7)"
  by (simp add: mount_Provider_def render_Provider_def hc_Provider_def
      useHook_createReducerContext useReducer_def Let_def fresh_instance_def Provider_def
      nullish_coalesce_def)

text \<open>
  Claim C5, amended. When a provider mounts with a value prop that is neither \<open>null\<close>
  nor \<open>undefined\<close>, the state of the reducer starts as that value; when the value prop
  is absent, it starts as the default value given to \<open>createReducerContext\<close>.
\<close>

theorem mount_initial_state:
  "slot (mount_Provider (createReducerContext reducer defaultValue) d
           \<lparr>value_prop = Defined v, children = c\<rparr>) = Some (Defined v, d)
   \<and> memoizedState (hooks (mount_Provider (createReducerContext reducer defaultValue) d
           \<lparr>value_prop = Defined v, children = c\<rparr>)) = Some (Defined v)
   \<and> slot (mount_Provider (createReducerContext reducer defaultValue) d
           \<lparr>value_prop = Undefined, children = c\<rparr>) = Some (defaultValue, d)
   \<and> memoizedState (hooks (mount_Provider (createReducerContext reducer defaultValue) d
           \<lparr>value_prop = Undefined, children = c\<rparr>)) = Some defaultValue"
  by (simp add: mount_Provider_def render_Provider_def hc_Provider_def
      useHook_createReducerContext useReducer_def Let_def fresh_instance_def Provider_def
      nullish_coalesce_def)

text \<open>
  Claim C9. A provider mounted with the value prop \<open>null\<close> starts with the default
  value of the factory as its state, as one mounted with the value prop \<open>undefined\<close>
  does: the initial state is \<open>value ?? defaultValue\<close>.
\<close>

theorem mount_null_value_defaults:
  "slot (mount_Provider (createReducerContext reducer defaultValue) d
           \<lparr>value_prop = Null, children = c\<rparr>) = Some (defaultValue, d)
   \<and> memoizedState (hooks (mount_Provider (createReducerContext reducer defaultValue) d
           \<lparr>value_prop = Null, children = c\<rparr>)) = Some defaultValue
   \<and> slot (mount_Provider (createReducerContext reducer defaultValue) d
           \<lparr>value_prop = Undefined, children = c\<rparr>) = Some (defaultValue, d)"
  by (simp add: mount_Provider_def render_Provider_def hc_Provider_def
      useHook_createReducerContext useReducer_def Let_def fresh_instance_def Provider_def
      nullish_coalesce_def)

section \<open>Dispatching an action\<close>

lemma dispatch_Provider_stores:
  "stores inst s d \<Longrightarrow>
   stores (dispatch_Provider (createReducerContext reducer defaultValue) props a inst)
     (reducer s a) d"
  by (simp add: stores_def dispatch_Provider_def render_Provider_def hc_Provider_def
      useHook_createReducerContext useReducer_def Let_def dispatchAction_def Provider_def)

text \<open>Every provider that was mounted and has taken any number of actions since is at
  rest, and stores the initial state passed through the reducer, action by action.\<close>

lemma dispatch_all_stores:
  "stores inst s d \<Longrightarrow>
   stores (foldl (\<lambda>i a. dispatch_Provider (createReducerContext reducer defaultValue) props a i)
             inst actions) (foldl reducer s actions) d"
proof (induction actions arbitrary: inst s)
  case Nil
  then show ?case by simp
next
  case (Cons a actions)
  from Cons.IH [OF dispatch_Provider_stores [OF Cons.prems]] show ?case by simp
qed

text \<open>With actions still waiting, the render passes them through the reducer before the
  action just dispatched.\<close>

lemma dispatch_Provider_pending:
  assumes "slot inst = Some (s, d)" and "memoizedState (hooks inst) = Some s"
    and "bound_dispatch (hooks inst) = d"
  shows "slot (dispatch_Provider (createReducerContext reducer defaultValue) props a inst)
           = Some (reducer (foldl reducer s (pending (hooks inst))) a, d)"
  using assms
  by (simp add: dispatch_Provider_def render_Provider_def hc_Provider_def
      useHook_createReducerContext useReducer_def Let_def dispatchAction_def Provider_def)

text \<open>
  Claim C1 as it is written fails: the counter is mounted with the value 5 and the action
  3 is dispatched, so that the stored state is still 5 while 3 waits for the next render.
  Dispatching 4 now leaves the state 12, and not 9, the reducer's result on the stored
  state 5 and the action 4. The dispatch function is the same before and after.
\<close>

theorem dispatch_while_pending_counterexample:
  "slot ((mount_Provider (createReducerContext counter (Defined 0)) (7::nat)
            \<lparr>value_prop = Defined 5, children = ()\<rparr>)
         \<lparr>hooks := dispatchAction 3
            (hooks (mount_Provider (createReducerContext counter (Defined 0)) (7::nat)
                      \<lparr>value_prop = Defined 5, children = ()\<rparr>))\<rparr>)
     = Some (Defined 5, 7)
   \<and> slot (dispatch_Provider (createReducerContext counter (Defined 0))
             \<lparr>value_prop = Defined 5, children = ()\<rparr> 4
             ((mount_Provider (createReducerContext counter (Defined 0)) (7::nat)
                 \<lparr>value_prop = Defined 5, children = ()\<rparr>)
              \<lparr>hooks := dispatchAction 3
                 (hooks (mount_Provider (createReducerContext counter (Defined 0)) (7::nat)
                           \<lparr>value_prop = Defined 5, children = ()\<rparr>))\<rparr>))
     = Some (Defined 12, 7)
   \<and> slot (dispatch_Provider (createReducerContext counter (Defined 0))
             \<lparr>value_prop = Defined 5, children = ()\<rparr> 4
             ((mount_Provider (createReducerContext counter (Defined 0)) (7::nat)
                 \<lparr>value_prop = Defined 5, children = ()\<rparr>)
              \<lparr>hooks := dispatchAction 3
                 (hooks (mount_Provider (createReducerContext counter (Defined 0)) (7::nat)
                           \<lparr>value_prop = Defined 5, children = ()\<rparr>))\<rparr>))
     \<noteq> Some (counter (Defined 5) 4, 7)"
  by (simp add: mount_Provider_def dispatch_Provider_def render_Provider_def hc_Provider_def
      useHook_createReducerContext useReducer_def Let_def dispatchAction_def Provider_def
      fresh_instance_def nullish_coalesce_def counter_def)

text \<open>
  Claim C1, amended. For every state \<open>s\<close> and action \<open>a\<close>, dispatching \<open>a\<close> to a
  provider that stores \<open>(s, d)\<close> and has no dispatched action waiting to be processed
  leaves it storing \<open>(reducer s a, d)\<close>, where \<open>reducer\<close> is the function given to
  \<open>createReducerContext\<close>: the state is replaced by the reducer's result and the
  dispatch function stays the same.
\<close>

theorem dispatch_Provider_reduces:
  assumes "stores inst s d"
  shows "slot (dispatch_Provider (createReducerContext reducer defaultValue) props a inst)
           = Some (reducer s a, d)
         \<and> stores (dispatch_Provider (createReducerContext reducer defaultValue) props a inst)
             (reducer s a) d"
  using assms
  by (simp add: stores_def dispatch_Provider_def render_Provider_def hc_Provider_def
      useHook_createReducerContext useReducer_def Let_def dispatchAction_def Provider_def)

text \<open>The counter, mounted with the value 5 and then sent the action 3, stores 8.\<close>

theorem dispatch_Provider_reduces_witness:
  "stores (mount_Provider (createReducerContext counter (Defined 0)) (7::nat)
             \<lparr>value_prop = Defined 5, children = ()\<rparr>) (Defined 5) 7
   \<and> slot (dispatch_Provider (createReducerContext counter (Defined 0))
             \<lparr>value_prop = Defined 5, children = ()\<rparr> 3
             (mount_Provider (createReducerContext counter (Defined 0)) (7::nat)
                \<lparr>value_prop = Defined 5, children = ()\<rparr>))
       = Some (Defined 8, 7)"
proof -
  have rest: "stores (mount_Provider (createReducerContext counter (Defined 0)) (7::nat)
             \<lparr>value_prop = Defined 5, children = ()\<rparr>) (Defined 5) 7"
    using mount_Provider_stores
            [of counter "Defined 0" 7 "\<lparr>value_prop = Defined 5, children = ()\<rparr>"]
    by (simp add: nullish_coalesce_def)
  show ?thesis
    using rest dispatch_Provider_reduces
                 [OF rest, of counter "Defined 0" "\<lparr>value_prop = Defined 5, children = ()\<rparr>" 3]
    by (simp add: counter_def)
qed

end
